theory Spec2Isabelle
  imports Main "HOL-Library.Char_ord" "HOL-Library.List_Lexorder" "HOL-Library.Product_Lexorder"
begin

section \<open>Text helpers of the Python runtime\<close>

text \<open>
  Strings are lists of 8-bit characters, read as the code points 0..255. The store's
  columns are SQLite TEXT columns, so a field value is a string or NULL
  (\<open>string option\<close>, \<open>None\<close> for NULL and for a key absent from a dict).
\<close>

definition is_digit :: "char \<Rightarrow> bool" where
  "is_digit c = (48 \<le> (of_char c :: nat) \<and> (of_char c :: nat) \<le> 57)"

definition digit_val :: "char \<Rightarrow> int" where
  "digit_val c = int (of_char c) - 48"

definition digit_char :: "nat \<Rightarrow> char" where
  "digit_char n = char_of (48 + n mod 10)"

text \<open>\<open>str.isspace\<close> on the code points below 256.\<close>

definition is_space :: "char \<Rightarrow> bool" where
  "is_space c = (let n = (of_char c :: nat) in
     (9 \<le> n \<and> n \<le> 13) \<or> (28 \<le> n \<and> n \<le> 32) \<or> n = 133 \<or> n = 160)"

definition py_strip :: "string \<Rightarrow> string" where
  "py_strip s = rev (dropWhile is_space (rev (dropWhile is_space s)))"

text \<open>\<open>str.lower\<close> on the code points below 256: A-Z and the accented capitals.\<close>

definition lower_char :: "char \<Rightarrow> char" where
  "lower_char c = (let n = (of_char c :: nat) in
     if (65 \<le> n \<and> n \<le> 90) \<or> (192 \<le> n \<and> n \<le> 222 \<and> n \<noteq> 215)
     then char_of (n + 32) else c)"

definition py_lower :: "string \<Rightarrow> string" where
  "py_lower s = map lower_char s"

text \<open>The operator \<open>a in b\<close> on strings: \<open>a\<close> occurs in \<open>b\<close> as a contiguous run.\<close>

fun is_prefix :: "string \<Rightarrow> string \<Rightarrow> bool" where
  "is_prefix [] ys = True"
| "is_prefix (x # xs) [] = False"
| "is_prefix (x # xs) (y # ys) = (x = y \<and> is_prefix xs ys)"

fun py_in :: "string \<Rightarrow> string \<Rightarrow> bool" where
  "py_in a [] = (a = [])"
| "py_in a (y # ys) = (is_prefix a (y # ys) \<or> py_in a ys)"

text \<open>Decimal text of a natural number, and \<open>%0wd\<close> padding.\<close>

fun dec :: "nat \<Rightarrow> string" where
  "dec n = (if n < 10 then [digit_char n] else dec (n div 10) @ [digit_char (n mod 10)])"

declare dec.simps [simp del]

definition zfill :: "nat \<Rightarrow> string \<Rightarrow> string" where
  "zfill w s = replicate (w - length s) (CHR ''0'') @ s"

text \<open>
  The format specification \<open>03d\<close> of an f-string: the sign counts towards the width
  and the zeros go between the sign and the digits.
\<close>

definition fmt_03d :: "int \<Rightarrow> string" where
  "fmt_03d n = (if n < 0 then CHR ''-'' # zfill 2 (dec (nat (- n))) else zfill 3 (dec (nat n)))"

text \<open>
  \<open>int(text)\<close> in base 10: surrounding whitespace is dropped, one sign is allowed,
  and single underscores may separate digits. \<open>None\<close> stands for \<open>ValueError\<close>.
\<close>

fun digits_value :: "int \<Rightarrow> string \<Rightarrow> int" where
  "digits_value acc [] = acc"
| "digits_value acc (c # cs) =
     (if c = CHR ''_'' then digits_value acc cs else digits_value (acc * 10 + digit_val c) cs)"

fun underscores_ok :: "string \<Rightarrow> bool" where
  "underscores_ok [] = True"
| "underscores_ok [c] = is_digit c"
| "underscores_ok (a # b # r) =
     ((is_digit a \<or> (a = CHR ''_'' \<and> is_digit b)) \<and> underscores_ok (b # r))"

definition int_body :: "string \<Rightarrow> int option" where
  "int_body s = (if s \<noteq> [] \<and> is_digit (hd s) \<and> underscores_ok s
                 then Some (digits_value 0 s) else None)"

definition py_int :: "string \<Rightarrow> int option" where
  "py_int s = (case py_strip s of
       [] \<Rightarrow> None
     | c # r \<Rightarrow> if c = CHR ''-'' then map_option uminus (int_body r)
                else if c = CHR ''+'' then int_body r
                else int_body (c # r))"

section \<open>Calendar dates of the datetime module\<close>

text \<open>
  A \<open>datetime.date\<close> is a triple (year, month, day) with 1 \<le> year \<le> 9999; dates
  compare as these triples do. Adding days goes through the proleptic Gregorian
  ordinal, where 0001-01-01 is day 1 and 9999-12-31 is day 3652059.
\<close>

type_synonym pydate = "int \<times> int \<times> int"

definition MINYEAR :: int where "MINYEAR = 1"
definition MAXYEAR :: int where "MAXYEAR = 9999"
definition MAXORDINAL :: int where "MAXORDINAL = 3652059"

definition date_max :: pydate where
  "date_max = (9999, 12, 31)"

definition is_leap :: "int \<Rightarrow> bool" where
  "is_leap year = (year mod 4 = 0 \<and> (year mod 100 \<noteq> 0 \<or> year mod 400 = 0))"

definition DAYS_IN_MONTH :: "int \<Rightarrow> int" where
  "DAYS_IN_MONTH month =
     (if month = 2 then 28
      else if month = 4 \<or> month = 6 \<or> month = 9 \<or> month = 11 then 30 else 31)"

fun DAYS_BEFORE_MONTH :: "int \<Rightarrow> int" where
  "DAYS_BEFORE_MONTH month =
     (if month \<le> 1 then 0 else DAYS_BEFORE_MONTH (month - 1) + DAYS_IN_MONTH (month - 1))"

declare DAYS_BEFORE_MONTH.simps [simp del]

definition days_before_year :: "int \<Rightarrow> int" where
  "days_before_year year =
     (let y = year - 1 in y * 365 + y div 4 - y div 100 + y div 400)"

definition days_in_month :: "int \<Rightarrow> int \<Rightarrow> int" where
  "days_in_month year month =
     (if month = 2 \<and> is_leap year then 29 else DAYS_IN_MONTH month)"

definition days_before_month :: "int \<Rightarrow> int \<Rightarrow> int" where
  "days_before_month year month =
     DAYS_BEFORE_MONTH month + (if month > 2 \<and> is_leap year then 1 else 0)"

definition ymd2ord :: "pydate \<Rightarrow> int" where
  "ymd2ord dt = (case dt of (year, month, day) \<Rightarrow>
     days_before_year year + days_before_month year month + day)"

definition DI400Y :: int where "DI400Y = 146097"
definition DI100Y :: int where "DI100Y = 36524"
definition DI4Y :: int where "DI4Y = 1461"

definition ord2ymd :: "int \<Rightarrow> pydate" where
  "ord2ymd n0 =
     (let n = n0 - 1;
          n400 = n div DI400Y; n = n mod DI400Y;
          year = n400 * 400 + 1;
          n100 = n div DI100Y; n = n mod DI100Y;
          n4 = n div DI4Y; n = n mod DI4Y;
          n1 = n div 365; n = n mod 365;
          year = year + n100 * 100 + n4 * 4 + n1
      in if n1 = 4 \<or> n100 = 4 then (year - 1, 12, 31)
         else
           let leapyear = (n1 = 3 \<and> (n4 \<noteq> 24 \<or> n100 = 3));
               month = (n + 50) div 32;
               preceding = DAYS_BEFORE_MONTH month + (if month > 2 \<and> leapyear then 1 else 0)
           in if preceding > n
              then let month = month - 1;
                       preceding = preceding -
                         (DAYS_IN_MONTH month + (if month = 2 \<and> leapyear then 1 else 0))
                   in (year, month, n - preceding + 1)
              else (year, month, n - preceding + 1))"

text \<open>The constructor \<open>date(year, month, day)\<close>; \<open>None\<close> stands for \<open>ValueError\<close>.\<close>

definition mk_date :: "int \<Rightarrow> int \<Rightarrow> int \<Rightarrow> pydate option" where
  "mk_date year month day =
     (if MINYEAR \<le> year \<and> year \<le> MAXYEAR \<and> 1 \<le> month \<and> month \<le> 12
         \<and> 1 \<le> day \<and> day \<le> days_in_month year month
      then Some (year, month, day) else None)"

text \<open>
  \<open>date + timedelta(days=n)\<close>; \<open>None\<close> stands for \<open>OverflowError\<close>, raised when the
  result would leave the years 1..9999.
\<close>

definition date_add :: "pydate \<Rightarrow> int \<Rightarrow> pydate option" where
  "date_add dt n =
     (let ordinal = ymd2ord dt + n
      in if 0 < ordinal \<and> ordinal \<le> MAXORDINAL then Some (ord2ymd ordinal) else None)"

text \<open>\<open>date.isoformat()\<close>, that is \<open>"%04d-%02d-%02d"\<close>.\<close>

definition isoformat :: "pydate \<Rightarrow> string" where
  "isoformat dt = (case dt of (year, month, day) \<Rightarrow>
     zfill 4 (dec (nat year)) @ ''-'' @ zfill 2 (dec (nat month)) @ ''-'' @ zfill 2 (dec (nat day)))"

section \<open>Parsing and deriving dates (db\_store.py)\<close>

text \<open>
  \<open>datetime.strptime\<close> turns a format into a regular expression: \<open>%Y\<close> is four
  digits, \<open>%m\<close> is \<open>1[0-2]|0[1-9]|[1-9]\<close>, \<open>%d\<close> is
  \<open>3[0-1]|[1-2]\d|0[1-9]|[1-9]| [1-9]\<close>, tried in this order. In the three formats
  used here every directive is followed by a separator or by the end of the text, so
  the first alternative that matches is the only one that can lead to a full match.
\<close>

definition is_digit19 :: "char \<Rightarrow> bool" where
  "is_digit19 c = (is_digit c \<and> c \<noteq> CHR ''0'')"

fun dir_Y :: "string \<Rightarrow> (int \<times> string) option" where
  "dir_Y (a # b # c # d # r) =
     (if is_digit a \<and> is_digit b \<and> is_digit c \<and> is_digit d
      then Some (1000 * digit_val a + 100 * digit_val b + 10 * digit_val c + digit_val d, r)
      else None)"
| "dir_Y _ = None"

fun dir_m :: "string \<Rightarrow> (int \<times> string) option" where
  "dir_m (a # b # r) =
     (if a = CHR ''1'' \<and> (b = CHR ''0'' \<or> b = CHR ''1'' \<or> b = CHR ''2'')
        then Some (10 + digit_val b, r)
      else if a = CHR ''0'' \<and> is_digit19 b then Some (digit_val b, r)
      else if is_digit19 a then Some (digit_val a, b # r)
      else None)"
| "dir_m [a] = (if is_digit19 a then Some (digit_val a, []) else None)"
| "dir_m [] = None"

fun dir_d :: "string \<Rightarrow> (int \<times> string) option" where
  "dir_d (a # b # r) =
     (if a = CHR ''3'' \<and> (b = CHR ''0'' \<or> b = CHR ''1'') then Some (30 + digit_val b, r)
      else if (a = CHR ''1'' \<or> a = CHR ''2'') \<and> is_digit b
        then Some (10 * digit_val a + digit_val b, r)
      else if a = CHR ''0'' \<and> is_digit19 b then Some (digit_val b, r)
      else if is_digit19 a then Some (digit_val a, b # r)
      else if a = CHR '' '' \<and> is_digit19 b then Some (digit_val b, r)
      else None)"
| "dir_d [a] = (if is_digit19 a then Some (digit_val a, []) else None)"
| "dir_d [] = None"

datatype fitem = DirY | Dirm | Dird | Lit char

text \<open>
  Matching a text against a format; the triple carries the fields found so far
  (strptime starts from 1900, 1, 1). Text left over is "unconverted data".
\<close>

fun run_format :: "fitem list \<Rightarrow> string \<Rightarrow> pydate \<Rightarrow> pydate option" where
  "run_format [] s ymd = (if s = [] then Some ymd else None)"
| "run_format (DirY # fs) s (y, m, d) =
     (case dir_Y s of None \<Rightarrow> None | Some (v, r) \<Rightarrow> run_format fs r (v, m, d))"
| "run_format (Dirm # fs) s (y, m, d) =
     (case dir_m s of None \<Rightarrow> None | Some (v, r) \<Rightarrow> run_format fs r (y, v, d))"
| "run_format (Dird # fs) s (y, m, d) =
     (case dir_d s of None \<Rightarrow> None | Some (v, r) \<Rightarrow> run_format fs r (y, m, v))"
| "run_format (Lit c # fs) s ymd =
     (case s of [] \<Rightarrow> None | x # r \<Rightarrow> if x = c then run_format fs r ymd else None)"

definition strptime_date :: "fitem list \<Rightarrow> string \<Rightarrow> pydate option" where
  "strptime_date fmt text =
     (case run_format fmt text (1900, 1, 1) of
        None \<Rightarrow> None
      | Some (y, m, d) \<Rightarrow> mk_date y m d)"

definition DATE_FORMATS :: "fitem list list" where
  "DATE_FORMATS =
     [[DirY, Lit (CHR ''-''), Dirm, Lit (CHR ''-''), Dird],
      [Dirm, Lit (CHR ''/''), Dird, Lit (CHR ''/''), DirY],
      [DirY, Lit (CHR ''/''), Dirm, Lit (CHR ''/''), Dird]]"

fun try_formats :: "fitem list list \<Rightarrow> string \<Rightarrow> pydate option" where
  "try_formats [] text = None"
| "try_formats (fmt # fmts) text =
     (case strptime_date fmt text of Some d \<Rightarrow> Some d | None \<Rightarrow> try_formats fmts text)"

text \<open>
  \<open>_parse_date\<close>. The last resort \<open>datetime.fromisoformat(text).date()\<close> is a
  library function whose accepted texts differ between Python versions; it is the
  parameter \<open>fiso\<close> (\<open>None\<close> for \<open>ValueError\<close>), and every theorem below holds for
  each such function.
\<close>

definition parse_date :: "(string \<Rightarrow> pydate option) \<Rightarrow> string option \<Rightarrow> pydate option" where
  "parse_date fiso v =
     (case v of
        None \<Rightarrow> None
      | Some s \<Rightarrow>
          if s = [] then None
          else let text = py_strip s
               in if text = [] then None
                  else (case try_formats DATE_FORMATS text of
                          Some d \<Rightarrow> Some d
                        | None \<Rightarrow> fiso text))"

definition format_date :: "pydate option \<Rightarrow> string" where
  "format_date v = (case v of Some d \<Rightarrow> isoformat d | None \<Rightarrow> [])"

datatype err = OverflowError | OperationalError | IntegrityError | OutsideModel

definition DUE_OFFSET_DAYS :: int where "DUE_OFFSET_DAYS = 30"

definition compute_due :: "(string \<Rightarrow> pydate option) \<Rightarrow> string option \<Rightarrow> err + pydate option" where
  "compute_due fiso end_period_v =
     (case parse_date fiso end_period_v of
        None \<Rightarrow> Inr None
      | Some e \<Rightarrow>
          (case date_add e DUE_OFFSET_DAYS of
             None \<Rightarrow> Inl OverflowError
           | Some d \<Rightarrow> Inr (Some d)))"

section \<open>The table psur\_reports and its rows\<close>

text \<open>
  One row of the table of \<open>TABLE_SQL\<close>. \<open>row_id\<close> is the column \<open>id\<close>,
  \<open>type_col\<close> and \<open>class_col\<close> are the columns \<open>type\<close> and \<open>class\<close>. The dict
  that a read returns has one entry per column, so it is a row as well.
\<close>

record row =
  row_id :: nat
  td_number :: string
  psur_number :: "string option"
  type_col :: "string option"
  product_name :: "string option"
  catalog_number :: "string option"
  writer :: "string option"
  email :: "string option"
  start_period :: "string option"
  end_period :: "string option"
  frequency :: "string option"
  due_date :: "string option"
  status :: "string option"
  canada_needed :: "string option"
  canada_status :: "string option"
  comments :: "string option"
  class_col :: "string option"
  created_at :: "string option"
  updated_at :: "string option"
  version :: int

text \<open>
  The table keeps its rows in the order of \<open>id\<close>, which is the order of insertion;
  \<open>seq\<close> is the largest id handed out so far (AUTOINCREMENT).
\<close>

record store =
  rows :: "row list"
  seq :: nat

text \<open>
  The clock readings of one call: \<open>datetime.now().isoformat()\<close>, the same instant
  as \<open>strftime('%Y-%m-%d %H:%M')\<close>, today's date, and SQLite's CURRENT\_TIMESTAMP.
\<close>

record clock =
  now_iso :: string
  now_minute :: string
  today :: pydate
  current_timestamp :: string

text \<open>
  A call returns a value or raises, and in both cases leaves a store behind: every
  statement is committed when it is executed.
\<close>

type_synonym 'a result = "(err + 'a) \<times> store"

subsection \<open>Row post-processing\<close>

definition ensure_due :: "(string \<Rightarrow> pydate option) \<Rightarrow> row \<Rightarrow> err + row" where
  "ensure_due fiso r =
     (case compute_due fiso (end_period r) of
        Inl e \<Rightarrow> Inl e
      | Inr due \<Rightarrow> Inr (r\<lparr>due_date := Some (format_date due)\<rparr>))"

text \<open>The SET clause of \<open>_write_due\<close> on one row, and the statement on the table.\<close>

definition heal_row :: "clock \<Rightarrow> string \<Rightarrow> row \<Rightarrow> row" where
  "heal_row clk due_iso q =
     q\<lparr>due_date := Some due_iso, updated_at := Some (now_iso clk), version := version q + 1\<rparr>"

definition write_due :: "clock \<Rightarrow> string \<Rightarrow> string \<Rightarrow> store \<Rightarrow> store" where
  "write_due clk td due_iso s =
     s\<lparr>rows := map (\<lambda>q. if td_number q = td then heal_row clk due_iso q else q) (rows s)\<rparr>"

definition row_to_record ::
  "(string \<Rightarrow> pydate option) \<Rightarrow> clock \<Rightarrow> bool \<Rightarrow> row \<Rightarrow> store \<Rightarrow> row result" where
  "row_to_record fiso clk persist r s =
     (case ensure_due fiso r of
        Inl e \<Rightarrow> (Inl e, s)
      | Inr record \<Rightarrow>
          let original_due = due_date r;
              computed_due = (case due_date record of Some d \<Rightarrow> d | None \<Rightarrow> [])
          in if persist \<and> computed_due \<noteq> [] \<and> original_due \<noteq> Some computed_due
             then (Inr record, write_due clk (td_number r) computed_due s)
             else (Inr record, s))"

text \<open>The list comprehension over the rows that a query fetched.\<close>

fun rows_to_records ::
  "(string \<Rightarrow> pydate option) \<Rightarrow> clock \<Rightarrow> bool \<Rightarrow> row list \<Rightarrow> store \<Rightarrow> row list result" where
  "rows_to_records fiso clk persist [] s = (Inr [], s)"
| "rows_to_records fiso clk persist (r # rest) s =
     (case row_to_record fiso clk persist r s of
        (Inl e, s1) \<Rightarrow> (Inl e, s1)
      | (Inr record, s1) \<Rightarrow>
          (case rows_to_records fiso clk persist rest s1 of
             (Inl e, s2) \<Rightarrow> (Inl e, s2)
           | (Inr records, s2) \<Rightarrow> (Inr (record # records), s2)))"

subsection \<open>Reads\<close>

text \<open>
  \<open>ORDER BY td_number\<close> compares the texts byte by byte; rows with the same
  td\_number stay in the order of their ids.
\<close>

definition get_all :: "(string \<Rightarrow> pydate option) \<Rightarrow> clock \<Rightarrow> bool \<Rightarrow> store \<Rightarrow> row list result" where
  "get_all fiso clk persist s =
     rows_to_records fiso clk persist (sort_key td_number (rows s)) s"

text \<open>\<open>fetchone\<close> takes the matching row of the lowest id.\<close>

definition find_by_td ::
  "(string \<Rightarrow> pydate option) \<Rightarrow> clock \<Rightarrow> string \<Rightarrow> bool \<Rightarrow> store \<Rightarrow> row option result" where
  "find_by_td fiso clk td persist s =
     (case filter (\<lambda>r. td_number r = td) (rows s) of
        [] \<Rightarrow> (Inr None, s)
      | r # _ \<Rightarrow>
          (case row_to_record fiso clk persist r s of
             (Inl e, s1) \<Rightarrow> (Inl e, s1)
           | (Inr record, s1) \<Rightarrow> (Inr (Some record), s1)))"

definition find_all_by_td ::
  "(string \<Rightarrow> pydate option) \<Rightarrow> clock \<Rightarrow> string \<Rightarrow> bool \<Rightarrow> store \<Rightarrow> row list result" where
  "find_all_by_td fiso clk td persist s =
     rows_to_records fiso clk persist (filter (\<lambda>r. td_number r = td) (rows s)) s"


text \<open>
  SQLite's LIKE: \<open>%\<close> stands for any run of characters, \<open>_\<close> for one character,
  and the letters A-Z match in both cases. A NULL column matches nothing.
\<close>

definition sql_fold :: "char \<Rightarrow> char" where
  "sql_fold c = (let n = (of_char c :: nat) in if 65 \<le> n \<and> n \<le> 90 then char_of (n + 32) else c)"

fun sql_like :: "string \<Rightarrow> string \<Rightarrow> bool" where
  "sql_like [] [] = True"
| "sql_like [] (c # cs) = False"
| "sql_like (p # ps) [] = (p = CHR ''%'' \<and> sql_like ps [])"
| "sql_like (p # ps) (c # cs) =
     (if p = CHR ''%'' then sql_like ps (c # cs) \<or> sql_like (p # ps) cs
      else (p = CHR ''_'' \<or> sql_fold p = sql_fold c) \<and> sql_like ps cs)"



subsection \<open>filter\_records\<close>

record criteria =
  c_writer :: "string option"
  c_classification :: "string option"
  c_status :: "string option"
  c_within_days :: "int option"
  c_overdue_only :: bool

text \<open>\<open>if writer and writer.lower() not in (record.get("writer") or "").lower(): continue\<close>\<close>

definition text_rejects :: "string option \<Rightarrow> string option \<Rightarrow> bool" where
  "text_rejects crit field =
     (case crit of
        None \<Rightarrow> False
      | Some w \<Rightarrow> w \<noteq> [] \<and>
          \<not> py_in (py_lower w) (py_lower (case field of None \<Rightarrow> [] | Some f \<Rightarrow> f)))"

text \<open>The body of the loop: \<open>True\<close> when the record reaches \<open>results.append\<close>.\<close>

definition keeps ::
  "(string \<Rightarrow> pydate option) \<Rightarrow> pydate \<Rightarrow> pydate option \<Rightarrow> criteria \<Rightarrow> row \<Rightarrow> bool" where
  "keeps fiso tday window_end c record =
     (let due = parse_date fiso (due_date record)
      in if text_rejects (c_writer c) (writer record) then False
         else if text_rejects (c_classification c) (class_col record) then False
         else if text_rejects (c_status c) (status record) then False
         else if c_overdue_only c \<and> (case due of None \<Rightarrow> True | Some d \<Rightarrow> d \<ge> tday) then False
         else if c_within_days c \<noteq> None \<and>
                 (case due of
                    None \<Rightarrow> True
                  | Some d \<Rightarrow> d < tday \<or> (case window_end of None \<Rightarrow> False | Some w \<Rightarrow> d > w))
              then False
         else True)"

definition sort_key_due :: "(string \<Rightarrow> pydate option) \<Rightarrow> row \<Rightarrow> pydate \<times> string" where
  "sort_key_due fiso r =
     ((case parse_date fiso (due_date r) of Some d \<Rightarrow> d | None \<Rightarrow> date_max), td_number r)"

definition filter_records ::
  "(string \<Rightarrow> pydate option) \<Rightarrow> clock \<Rightarrow> criteria \<Rightarrow> store \<Rightarrow> row list result" where
  "filter_records fiso clk c s =
     (case get_all fiso clk True s of
        (Inl e, s1) \<Rightarrow> (Inl e, s1)
      | (Inr records, s1) \<Rightarrow>
          (case c_within_days c of
             None \<Rightarrow>
               (Inr (sort_key (sort_key_due fiso)
                      (filter (keeps fiso (today clk) None c) records)), s1)
           | Some n \<Rightarrow>
               (case date_add (today clk) n of
                  None \<Rightarrow> (Inl OverflowError, s1)
                | Some w \<Rightarrow>
                    (Inr (sort_key (sort_key_due fiso)
                           (filter (keeps fiso (today clk) (Some w) c) records)), s1))))"

subsection \<open>Writes\<close>

text \<open>
  \<open>update_record\<close> pastes each key of the field map into the statement, before
  \<open>= ?\<close>, so SQLite decides what the key denotes. A name may be written bare or in
  one of the four quoting styles, with blanks around it, and it is compared with
  the column names without regard to the case of the letters A-Z; \<open>rowid\<close>,
  \<open>oid\<close> and \<open>_rowid_\<close> are further names of the column \<open>id\<close>.
\<close>

definition sql_space :: "char \<Rightarrow> bool" where
  "sql_space c = (let n = (of_char c :: nat) in n = 32 \<or> n = 9 \<or> n = 10 \<or> n = 12 \<or> n = 13)"

definition sql_trim :: "string \<Rightarrow> string" where
  "sql_trim s = rev (dropWhile sql_space (rev (dropWhile sql_space s)))"

definition ident_char :: "char \<Rightarrow> bool" where
  "ident_char c = (let n = (of_char c :: nat) in
     (65 \<le> n \<and> n \<le> 90) \<or> (97 \<le> n \<and> n \<le> 122) \<or> (48 \<le> n \<and> n \<le> 57) \<or> n = 95)"

definition plain_name :: "string \<Rightarrow> bool" where
  "plain_name t = (t \<noteq> [] \<and> \<not> is_digit (hd t) \<and> list_all ident_char t)"

text \<open>
  The name inside quotes: \<open>"name"\<close>, \<open>`name`\<close>, \<open>'name'\<close> or \<open>[name]\<close>, where
  the name does not contain the closing quote.
\<close>

definition quoted_name :: "string \<Rightarrow> string option" where
  "quoted_name t =
     (if length t < 2 then None
      else let q = hd t; e = last t; inner = butlast (tl t)
           in if ((q = CHR 0x22 \<and> e = CHR 0x22) \<or> (q = CHR 0x60 \<and> e = CHR 0x60)
                  \<or> (q = CHR 0x27 \<and> e = CHR 0x27) \<or> (q = CHR ''['' \<and> e = CHR '']''))
                 \<and> e \<notin> set inner
              then Some inner else None)"

text \<open>The key read as a single name; \<open>None\<close> when it is any other SQL text.\<close>

definition single_name :: "string \<Rightarrow> string option" where
  "single_name key =
     (let t = sql_trim key in if plain_name t then Some t else quoted_name t)"

definition COLUMN_LIST :: "string list" where
  "COLUMN_LIST = [''td_number'', ''psur_number'', ''type'', ''product_name'',
     ''catalog_number'', ''writer'', ''email'', ''start_period'', ''end_period'',
     ''frequency'', ''due_date'', ''status'', ''canada_needed'', ''canada_status'',
     ''comments'', ''class'', ''created_at'', ''updated_at'', ''version'']"

definition ROWID_NAMES :: "string list" where
  "ROWID_NAMES = [''id'', ''rowid'', ''oid'', ''_rowid_'']"

text \<open>
  What a key denotes in the SET clause: a column of \<open>COLUMN_LIST\<close> (under its
  lower-case name), the column \<open>id\<close>, a name that is no column, or no name at all.
\<close>

datatype target = Column string | RowId | NoColumn | NotAName

definition sql_target :: "string \<Rightarrow> target" where
  "sql_target key =
     (case single_name key of
        None \<Rightarrow> NotAName
      | Some n \<Rightarrow>
          let c = map sql_fold n
          in if c \<in> set ROWID_NAMES then RowId
             else if c \<in> set COLUMN_LIST then Column c
             else NoColumn)"

text \<open>
  The model covers the keys that are a single name and do not denote \<open>id\<close>. A key
  that is other SQL text (an expression, several clauses) or that assigns the primary
  key is answered with \<open>OutsideModel\<close>; the theorems on \<open>update_record\<close> assume
  \<open>keys_modelled\<close>.
\<close>

definition modelled_key :: "string \<Rightarrow> bool" where
  "modelled_key key = (sql_target key \<noteq> NotAName \<and> sql_target key \<noteq> RowId)"

definition IMMUTABLE :: "string list" where
  "IMMUTABLE = [''id'', ''created_at'', ''updated_at'', ''version'', ''td_number'']"

text \<open>
  One SET clause \<open>column = ?\<close> on one row. The statement ends with its own clauses
  for \<open>updated_at\<close> and \<open>version\<close>, and of several clauses for one column SQLite
  obeys the rightmost, so a clause of the caller for these two columns has no effect.
  (\<open>td_number\<close> is NOT NULL; the statement fails before a NULL is stored.)
\<close>

definition set_column :: "string \<Rightarrow> string option \<Rightarrow> row \<Rightarrow> row" where
  "set_column c v r =
     (if c = ''td_number'' then (case v of Some t \<Rightarrow> r\<lparr>td_number := t\<rparr> | None \<Rightarrow> r)
      else if c = ''psur_number'' then r\<lparr>psur_number := v\<rparr>
      else if c = ''type'' then r\<lparr>type_col := v\<rparr>
      else if c = ''product_name'' then r\<lparr>product_name := v\<rparr>
      else if c = ''catalog_number'' then r\<lparr>catalog_number := v\<rparr>
      else if c = ''writer'' then r\<lparr>writer := v\<rparr>
      else if c = ''email'' then r\<lparr>email := v\<rparr>
      else if c = ''start_period'' then r\<lparr>start_period := v\<rparr>
      else if c = ''end_period'' then r\<lparr>end_period := v\<rparr>
      else if c = ''frequency'' then r\<lparr>frequency := v\<rparr>
      else if c = ''due_date'' then r\<lparr>due_date := v\<rparr>
      else if c = ''status'' then r\<lparr>status := v\<rparr>
      else if c = ''canada_needed'' then r\<lparr>canada_needed := v\<rparr>
      else if c = ''canada_status'' then r\<lparr>canada_status := v\<rparr>
      else if c = ''comments'' then r\<lparr>comments := v\<rparr>
      else if c = ''class'' then r\<lparr>class_col := v\<rparr>
      else if c = ''created_at'' then r\<lparr>created_at := v\<rparr>
      else r)"

text \<open>The SET clauses of the caller, applied to one row in the order of the dict.\<close>

fun apply_sets :: "(string \<times> string option) list \<Rightarrow> row \<Rightarrow> row" where
  "apply_sets [] r = r"
| "apply_sets ((k, v) # kvs) r =
     apply_sets kvs (case sql_target k of Column c \<Rightarrow> set_column c v r | _ \<Rightarrow> r)"

definition update_row :: "clock \<Rightarrow> (string \<times> string option) list \<Rightarrow> row \<Rightarrow> row" where
  "update_row clk allowed r =
     (apply_sets allowed r)\<lparr>updated_at := Some (now_iso clk), version := version r + 1\<rparr>"

text \<open>The dict comprehension that drops the immutable keys.\<close>

definition allowed_fields :: "(string \<times> string option) list \<Rightarrow> (string \<times> string option) list" where
  "allowed_fields updates = filter (\<lambda>(k, v). k \<notin> set IMMUTABLE) updates"

definition keys_modelled :: "(string \<times> string option) list \<Rightarrow> bool" where
  "keys_modelled updates = list_all (\<lambda>(k, v). modelled_key k) (allowed_fields updates)"

text \<open>The value that the rightmost clause for \<open>td_number\<close> stores is NULL.\<close>

definition td_null :: "(string \<times> string option) list \<Rightarrow> bool" where
  "td_null allowed =
     (case filter (\<lambda>(k, v). sql_target k = Column ''td_number'') (rev allowed) of
        [] \<Rightarrow> False
      | (k, v) # _ \<Rightarrow> v = None)"

definition update_record ::
  "(string \<Rightarrow> pydate option) \<Rightarrow> clock \<Rightarrow> string \<Rightarrow> (string \<times> string option) list
     \<Rightarrow> store \<Rightarrow> bool result" where
  "update_record fiso clk td updates s =
     (if updates = [] then (Inr False, s)
      else
        let allowed = allowed_fields updates
        in if allowed = [] then (Inr False, s)
           else if \<not> list_all (\<lambda>(k, v). modelled_key k) allowed then (Inl OutsideModel, s)
           else if \<not> list_all (\<lambda>(k, v). sql_target k \<noteq> NoColumn) allowed
             then (Inl OperationalError, s)
           else
             let affected = length (filter (\<lambda>r. td_number r = td) (rows s))
             in if affected \<noteq> 0 \<and> td_null allowed then (Inl IntegrityError, s)
                else
                  let s1 = s\<lparr>rows := map (\<lambda>r. if td_number r = td
                                                  then update_row clk allowed r else r)
                                           (rows s)\<rparr>
                  in if affected \<noteq> 0
                     then (case find_by_td fiso clk td True s1 of
                             (Inl e, s2) \<Rightarrow> (Inl e, s2)
                           | (Inr _, s2) \<Rightarrow> (Inr True, s2))
                     else (Inr False, s1))"

text \<open>
  \<open>add_record\<close>. The record is a dict read with \<open>get\<close>, so it is a function from
  keys to values, \<open>None\<close> where the key is absent.
\<close>

definition max_text :: "string \<Rightarrow> string list \<Rightarrow> string" where
  "max_text x xs = fold max xs x"

definition next_td_number :: "store \<Rightarrow> string" where
  "next_td_number s =
     (let num = (case filter (sql_like ''TD%'') (map td_number (rows s)) of
                   [] \<Rightarrow> 1
                 | t # ts \<Rightarrow>
                     (case py_int (drop 2 (max_text t ts)) of
                        Some n \<Rightarrow> n + 1
                      | None \<Rightarrow> 1))
      in ''TD'' @ fmt_03d num)"

text \<open>The row that the INSERT statement creates; the table fills in the last three columns.\<close>

definition inserted_row ::
  "clock \<Rightarrow> nat \<Rightarrow> string \<Rightarrow> (string \<Rightarrow> string option) \<Rightarrow> pydate option \<Rightarrow> row" where
  "inserted_row clk i td record due =
     \<lparr>row_id = i,
      td_number = td,
      psur_number = record ''psur_number'',
      type_col = record ''type'',
      product_name = record ''product_name'',
      catalog_number = record ''catalog_number'',
      writer = record ''writer'',
      email = record ''email'',
      start_period = record ''start_period'',
      end_period = record ''end_period'',
      frequency = record ''frequency'',
      due_date = Some (format_date due),
      status = record ''status'',
      canada_needed = record ''canada_needed'',
      canada_status = record ''canada_status'',
      comments = record ''comments'',
      class_col = record ''class'',
      created_at = Some (current_timestamp clk),
      updated_at = Some (current_timestamp clk),
      version = 1\<rparr>"

definition add_record ::
  "(string \<Rightarrow> pydate option) \<Rightarrow> clock \<Rightarrow> (string \<Rightarrow> string option) \<Rightarrow> store \<Rightarrow> string result" where
  "add_record fiso clk record s =
     (let td = (case record ''td_number'' of
                  None \<Rightarrow> next_td_number s
                | Some t \<Rightarrow> if t = [] then next_td_number s else t)
      in case compute_due fiso (record ''end_period'') of
           Inl e \<Rightarrow> (Inl e, s)
         | Inr due \<Rightarrow>
             (Inr td,
              s\<lparr>rows := rows s @ [inserted_row clk (Suc (seq s)) td record due],
                seq := Suc (seq s)\<rparr>))"

definition delete_record :: "string \<Rightarrow> store \<Rightarrow> bool \<times> store" where
  "delete_record td s =
     (let affected = length (filter (\<lambda>r. td_number r = td) (rows s))
      in (affected > 0, s\<lparr>rows := filter (\<lambda>r. td_number r \<noteq> td) (rows s)\<rparr>))"

subsection \<open>Utilities used by the tools\<close>

definition stamp :: "clock \<Rightarrow> string \<Rightarrow> string" where
  "stamp clk comment = ''['' @ now_minute clk @ ''] '' @ comment"

definition add_comment ::
  "(string \<Rightarrow> pydate option) \<Rightarrow> clock \<Rightarrow> string \<Rightarrow> string \<Rightarrow> store \<Rightarrow> bool result" where
  "add_comment fiso clk td comment s =
     (case find_by_td fiso clk td False s of
        (Inl e, s1) \<Rightarrow> (Inl e, s1)
      | (Inr None, s1) \<Rightarrow> (Inr False, s1)
      | (Inr (Some record), s1) \<Rightarrow>
          let stamped = stamp clk comment;
              existing = (case comments record of None \<Rightarrow> [] | Some t \<Rightarrow> t);
              combined = (if existing \<noteq> [] then existing @ [char_of (10 :: nat)] @ stamped
                          else stamped)
          in update_record fiso clk td [(''comments'', Some combined)] s1)"

text \<open>
  The counting loop shared by \<open>bulk_update_status\<close> and by the tools
  \<open>bulk_update_writer\<close> and \<open>bulk_update_field\<close>: one \<open>update_record\<close> per record of
  the filter's result, in order; an exception leaves the loop.
\<close>

fun bulk_loop ::
  "(string \<Rightarrow> pydate option) \<Rightarrow> clock \<Rightarrow> (string \<times> string option) list \<Rightarrow> row list
     \<Rightarrow> nat \<Rightarrow> store \<Rightarrow> nat result" where
  "bulk_loop fiso clk updates [] count s = (Inr count, s)"
| "bulk_loop fiso clk updates (record # records) count s =
     (case update_record fiso clk (td_number record) updates s of
        (Inl e, s1) \<Rightarrow> (Inl e, s1)
      | (Inr ok, s1) \<Rightarrow>
          bulk_loop fiso clk updates records (if ok then count + 1 else count) s1)"

definition bulk_update_status ::
  "(string \<Rightarrow> pydate option) \<Rightarrow> clock \<Rightarrow> criteria \<Rightarrow> string option \<Rightarrow> store \<Rightarrow> nat result" where
  "bulk_update_status fiso clk filters new_status s =
     (case filter_records fiso clk filters s of
        (Inl e, s1) \<Rightarrow> (Inl e, s1)
      | (Inr records, s1) \<Rightarrow> bulk_loop fiso clk [(''status'', new_status)] records 0 s1)"

section \<open>The bulk tools of the dispatcher (server.py)\<close>

text \<open>
  The answers of \<open>tool_entry\<close>: \<open>{"ok": True, "updated_count": n}\<close>, or
  \<open>{"error": ...}\<close>, either from the validation of the arguments or from the
  \<open>except Exception\<close> around all tools.
\<close>

datatype answer = OkUpdated nat | ErrorRequired | ErrorFailed err

definition answer_of :: "nat result \<Rightarrow> answer \<times> store" where
  "answer_of res = (case res of (Inl e, s) \<Rightarrow> (ErrorFailed e, s) | (Inr n, s) \<Rightarrow> (OkUpdated n, s))"

definition truthy :: "string option \<Rightarrow> bool" where
  "truthy v = (case v of None \<Rightarrow> False | Some t \<Rightarrow> t \<noteq> [])"

definition tool_bulk_update_status ::
  "(string \<Rightarrow> pydate option) \<Rightarrow> clock \<Rightarrow> criteria \<Rightarrow> string option \<Rightarrow> store \<Rightarrow> answer \<times> store" where
  "tool_bulk_update_status fiso clk filter_criteria new_status s =
     (if \<not> truthy new_status then (ErrorRequired, s)
      else answer_of (bulk_update_status fiso clk filter_criteria new_status s))"

definition tool_bulk_update_writer ::
  "(string \<Rightarrow> pydate option) \<Rightarrow> clock \<Rightarrow> criteria \<Rightarrow> string option \<Rightarrow> string option
     \<Rightarrow> store \<Rightarrow> answer \<times> store" where
  "tool_bulk_update_writer fiso clk filter_criteria new_writer_arg new_email s =
     (let new_writer = py_strip (case new_writer_arg of None \<Rightarrow> [] | Some t \<Rightarrow> t)
      in if new_writer = [] then (ErrorRequired, s)
         else
           (case filter_records fiso clk filter_criteria s of
              (Inl e, s1) \<Rightarrow> (ErrorFailed e, s1)
            | (Inr records, s1) \<Rightarrow>
                answer_of (bulk_loop fiso clk
                  ((''writer'', Some new_writer) #
                     (if truthy new_email then [(''email'', new_email)] else []))
                  records 0 s1)))"

definition tool_bulk_update_field ::
  "(string \<Rightarrow> pydate option) \<Rightarrow> clock \<Rightarrow> criteria \<Rightarrow> string option \<Rightarrow> string option
     \<Rightarrow> store \<Rightarrow> answer \<times> store" where
  "tool_bulk_update_field fiso clk filter_criteria field_name_arg field_value s =
     (let field_name = py_strip (case field_name_arg of None \<Rightarrow> [] | Some t \<Rightarrow> t)
      in if field_name = [] then (ErrorRequired, s)
         else
           (case filter_records fiso clk filter_criteria s of
              (Inl e, s1) \<Rightarrow> (ErrorFailed e, s1)
            | (Inr records, s1) \<Rightarrow>
                answer_of (bulk_loop fiso clk [(field_name, field_value)] records 0 s1)))"

section \<open>Example data\<close>

text \<open>
  The examples below only use dates that \<open>strptime\<close> accepts or fields that are empty,
  so \<open>fromisoformat\<close> is never consulted; they are stated with the function that
  rejects every text.
\<close>

definition no_iso :: "string \<Rightarrow> pydate option" where
  "no_iso text = None"

definition ex_clock :: clock where
  "ex_clock = \<lparr>now_iso = ''2025-06-01T10:00:00'', now_minute = ''2025-06-01 10:00'',
               today = (2025, 6, 1), current_timestamp = ''2025-06-01 08:00:00''\<rparr>"

text \<open>A row with the given id, td\_number, end\_period and due\_date, other fields NULL.\<close>

definition ex_row :: "nat \<Rightarrow> string \<Rightarrow> string option \<Rightarrow> string option \<Rightarrow> row" where
  "ex_row i td ep due =
     \<lparr>row_id = i, td_number = td, psur_number = None, type_col = None, product_name = None,
      catalog_number = None, writer = None, email = None, start_period = None,
      end_period = ep, frequency = None, due_date = due, status = None,
      canada_needed = None, canada_status = None, comments = None, class_col = None,
      created_at = Some ''2025-01-01 00:00:00'', updated_at = Some ''2025-01-01 00:00:00'',
      version = 1\<rparr>"

definition empty_record :: "string \<Rightarrow> string option" where
  "empty_record k = None"

text \<open>Two rows sharing the identifier X1, both with the due date their end\_period derives.\<close>

definition ex_pair :: store where
  "ex_pair = \<lparr>rows = [ex_row 1 ''X1'' (Some ''2025-01-01'') (Some ''2025-01-31''),
                       ex_row 2 ''X1'' (Some ''2025-01-01'') (Some ''2025-01-31'')],
              seq = 2\<rparr>"

text \<open>
  Two rows sharing X1 and a third row: the first X1 row carries a stale due date, the
  second one is right for its own end\_period.
\<close>

definition ex_dups :: store where
  "ex_dups = \<lparr>rows = [ex_row 1 ''X1'' (Some ''2025-01-01'') (Some ''2025-01-15''),
                       ex_row 2 ''X1'' (Some ''2026-06-30'') (Some ''2026-07-30''),
                       ex_row 3 ''Y2'' (Some ''2025-03-01'') (Some ''2025-03-31'')],
              seq = 3\<rparr>"

text \<open>The two records of the duplicate test, as dicts.\<close>

definition ex_alice :: "string \<Rightarrow> string option" where
  "ex_alice k = (if k = ''td_number'' then Some ''TD888''
                 else if k = ''writer'' then Some ''Alice''
                 else if k = ''end_period'' then Some ''2025-01-01'' else None)"

definition ex_bob :: "string \<Rightarrow> string option" where
  "ex_bob k = (if k = ''td_number'' then Some ''TD888''
               else if k = ''writer'' then Some ''Bob'' else None)"

text \<open>A second clock reading, five minutes after the first.\<close>

definition ex_clock2 :: clock where
  "ex_clock2 = \<lparr>now_iso = ''2025-06-01T10:05:00'', now_minute = ''2025-06-01 10:05'',
                today = (2025, 6, 1), current_timestamp = ''2025-06-01 08:05:00''\<rparr>"

text \<open>
  Read-modify-append in the words of the specification: the new note goes after the
  existing notes, on a new line; with no notes yet it stands alone.
\<close>

definition appended :: "string option \<Rightarrow> string \<Rightarrow> string" where
  "appended existing stamped =
     (case existing of
        None \<Rightarrow> stamped
      | Some t \<Rightarrow> if t = [] then stamped else t @ [char_of (10 :: nat)] @ stamped)"


section \<open>Notions of the specification\<close>



section \<open>Properties\<close>

subsection \<open>Basic facts about reads and writes\<close>




lemma row_to_record_store:
  "row_to_record fiso clk persist r s = (x, s1) \<Longrightarrow>
     s1 = s \<or> (\<exists>d. s1 = write_due clk (td_number r) d s)"
  unfolding row_to_record_def Let_def
  by (cases "ensure_due fiso r") (auto split: if_splits)

lemma find_by_td_store:
  assumes a: "find_by_td fiso clk td persist s = (x, s1)"
  shows "s1 = s \<or> (\<exists>d. s1 = write_due clk td d s)"
proof (cases "filter (\<lambda>r. td_number r = td) (rows s)")
  case Nil
  with a show ?thesis by (simp add: find_by_td_def)
next
  case (Cons r rest)
  from Cons have "r \<in> set (filter (\<lambda>r. td_number r = td) (rows s))" by simp
  then have td: "td_number r = td" by simp
  obtain y s2 where rr: "row_to_record fiso clk persist r s = (y, s2)"
    by (cases "row_to_record fiso clk persist r s")
  from a Cons rr have "s1 = s2" by (cases y) (simp_all add: find_by_td_def)
  with row_to_record_store[OF rr] td show ?thesis by auto
qed

lemma isoformat_nonempty: "isoformat d \<noteq> []"
  by (cases d) (simp add: isoformat_def)

lemma row_to_record_Inr:
  "compute_due fiso (end_period r) = Inr due \<Longrightarrow>
   row_to_record fiso clk persist r s =
     (Inr (r\<lparr>due_date := Some (format_date due)\<rparr>),
      if persist \<and> format_date due \<noteq> [] \<and> due_date r \<noteq> Some (format_date due)
      then write_due clk (td_number r) (format_date due) s else s)"
  by (simp add: row_to_record_def ensure_due_def Let_def)


lemma find_by_td_first:
  assumes f: "filter (\<lambda>r. td_number r = td) (rows s) = r # rest"
      and c: "compute_due fiso (end_period r) = Inr due"
  shows "find_by_td fiso clk td persist s =
     (Inr (Some (r\<lparr>due_date := Some (format_date due)\<rparr>)),
      if persist \<and> format_date due \<noteq> [] \<and> due_date r \<noteq> Some (format_date due)
      then write_due clk td (format_date due) s else s)"
proof -
  from f have "r \<in> set (filter (\<lambda>r. td_number r = td) (rows s))" by simp
  then have td: "td_number r = td" by simp
  show ?thesis
    by (simp add: find_by_td_def f row_to_record_Inr[OF c] td)
qed

lemma allowed_nonempty: "allowed_fields updates \<noteq> [] \<Longrightarrow> updates \<noteq> []"
  by (auto simp: allowed_fields_def)

subsection \<open>Facts about update\_record and versions\<close>


















subsection \<open>Facts about add\_record and delete\_record\<close>

lemma add_record_given_td:
  assumes "rcd ''td_number'' = Some td" "td \<noteq> []"
      and "compute_due fiso (rcd ''end_period'') = Inr due"
  shows "add_record fiso clk rcd s =
           (Inr td, s\<lparr>rows := rows s @ [inserted_row clk (Suc (seq s)) td rcd due],
                      seq := Suc (seq s)\<rparr>)"
  using assms by (simp add: add_record_def)

lemma inserted_row_reads_back:
  assumes "compute_due fiso (rcd ''end_period'') = Inr due"
  shows "row_to_record fiso clk persist (inserted_row c i td rcd due) s
           = (Inr (inserted_row c i td rcd due), s)"
proof -
  have e: "end_period (inserted_row c i td rcd due) = rcd ''end_period''"
    by (simp add: inserted_row_def)
  have d: "due_date (inserted_row c i td rcd due) = Some (format_date due)"
    by (simp add: inserted_row_def)
  have "compute_due fiso (end_period (inserted_row c i td rcd due)) = Inr due"
    using assms e by simp
  from row_to_record_Inr[OF this, of clk persist s] d
  show ?thesis by (simp add: inserted_row_def)
qed

lemma delete_record_iff:
  "fst (delete_record td s) = (\<exists>r\<in>set (rows s). td_number r = td)"
  by (auto simp: delete_record_def Let_def filter_empty_conv)

lemma delete_record_removes_all:
  "\<forall>r\<in>set (rows (snd (delete_record td s))). td_number r \<noteq> td"
  by (simp add: delete_record_def Let_def)

subsection \<open>Facts about notes\<close>

lemma set_column_comments:
  "c \<noteq> ''comments'' \<Longrightarrow> comments (set_column c v r) = comments r"
  by (simp add: set_column_def split: option.splits)

lemma apply_sets_comments:
  "\<forall>(k, v)\<in>set kvs. sql_target k \<noteq> Column ''comments''
     \<Longrightarrow> comments (apply_sets kvs r) = comments r"
proof (induction kvs arbitrary: r)
  case Nil show ?case by simp
next
  case (Cons kv kvs)
  obtain k v where kv: "kv = (k, v)" by (cases kv)
  from Cons.prems kv have k: "sql_target k \<noteq> Column ''comments''"
    and rest: "\<forall>(k, v)\<in>set kvs. sql_target k \<noteq> Column ''comments''" by auto
  show ?case
  proof (cases "sql_target k")
    case (Column c)
    with k have "c \<noteq> ''comments''" by simp
    then show ?thesis
      using Cons.IH[OF rest, of "set_column c v r"] set_column_comments[of c v r]
      by (simp add: kv Column)
  qed (use Cons.IH[OF rest, of r] in \<open>simp_all add: kv\<close>)
qed

lemma update_record_store_cases:
  assumes a: "update_record fiso clk td updates s = (x, s')"
  shows "s' = s
       \<or> s' = s\<lparr>rows := map (\<lambda>r. if td_number r = td
                     then update_row clk (allowed_fields updates) r else r) (rows s)\<rparr>
       \<or> (\<exists>d. s' = write_due clk td d
             (s\<lparr>rows := map (\<lambda>r. if td_number r = td
                     then update_row clk (allowed_fields updates) r else r) (rows s)\<rparr>))"
proof -
  let ?s1 = "s\<lparr>rows := map (\<lambda>r. if td_number r = td
                     then update_row clk (allowed_fields updates) r else r) (rows s)\<rparr>"
  obtain y s2 where f: "find_by_td fiso clk td True ?s1 = (y, s2)"
    by (cases "find_by_td fiso clk td True ?s1")
  from a have "s' = s \<or> s' = ?s1 \<or> s' = s2"
    unfolding update_record_def Let_def f
    by (cases y) (auto split: if_splits)
  with find_by_td_store[OF f] show ?thesis by auto
qed

lemma update_record_comments_frame:
  assumes nc: "\<forall>(k, v)\<in>set updates. sql_target k \<noteq> Column ''comments''"
      and a: "update_record fiso clk td updates s = (x, s')"
  shows "map comments (rows s') = map comments (rows s)"
proof -
  have "set (allowed_fields updates) \<subseteq> set updates"
    by (auto simp: allowed_fields_def)
  with nc have "\<forall>(k, v)\<in>set (allowed_fields updates). sql_target k \<noteq> Column ''comments''"
    by auto
  then have c: "\<And>r. comments (update_row clk (allowed_fields updates) r) = comments r"
    by (simp add: update_row_def apply_sets_comments)
  from update_record_store_cases[OF a] show ?thesis
    by (auto simp: write_due_def heal_row_def c)
qed

lemma filter_td_map:
  "(\<And>r. td_number (f r) = td_number r) \<Longrightarrow>
   filter (\<lambda>r. td_number r = td) (map (\<lambda>r. if td_number r = td then f r else r) xs)
     = map f (filter (\<lambda>r. td_number r = td) xs)"
  by (induction xs) auto

lemma stamp_nonempty: "stamp clk note \<noteq> []"
  by (simp add: stamp_def)

lemma appended_nonempty: "stamped \<noteq> [] \<Longrightarrow> appended existing stamped \<noteq> []"
  by (simp add: appended_def split: option.splits)

lemma comments_key: "sql_target ''comments'' = Column ''comments''"
  by code_simp

lemma add_comment_step:
  assumes first: "filter (\<lambda>r. td_number r = td) (rows s) = r0 # rest"
      and rng: "compute_due fiso (end_period r0) = Inr due"
  shows "\<exists>s1 q rest1. add_comment fiso clk td note s = (Inr True, s1)
          \<and> filter (\<lambda>r. td_number r = td) (rows s1) = q # rest1
          \<and> comments q = Some (appended (comments r0) (stamp clk note))
          \<and> end_period q = end_period r0"
proof -
  let ?c = "appended (comments r0) (stamp clk note)"
  let ?upd = "[(''comments'', Some ?c)]"
  let ?V = "update_row clk ?upd"
  let ?s1 = "s\<lparr>rows := map (\<lambda>r. if td_number r = td then ?V r else r) (rows s)\<rparr>"
  have fb: "find_by_td fiso clk td False s
              = (Inr (Some (r0\<lparr>due_date := Some (format_date due)\<rparr>)), s)"
    using find_by_td_first[OF first rng, of clk False] by simp
  have ac: "add_comment fiso clk td note s = update_record fiso clk td ?upd s"
    by (simp add: add_comment_def fb Let_def appended_def split: option.splits)
  have al: "allowed_fields ?upd = ?upd"
    by (simp add: allowed_fields_def IMMUTABLE_def)
  have V: "\<And>r. ?V r = r\<lparr>comments := Some ?c, updated_at := Some (now_iso clk),
                          version := version r + 1\<rparr>"
    by (simp add: update_row_def comments_key set_column_def)
  have tdV: "\<And>r. td_number (?V r) = td_number r" by (simp add: V)
  have f1: "filter (\<lambda>r. td_number r = td) (rows ?s1) = ?V r0 # map ?V rest"
    using filter_td_map[of ?V td "rows s", OF tdV] first by simp
  have cd: "compute_due fiso (end_period (?V r0)) = Inr due" using rng by (simp add: V)
  define w where "w = (format_date due \<noteq> [] \<and> due_date (?V r0) \<noteq> Some (format_date due))"
  define s2 where "s2 = (if w then write_due clk td (format_date due) ?s1 else ?s1)"
  have fb1: "find_by_td fiso clk td True ?s1
               = (Inr (Some ((?V r0)\<lparr>due_date := Some (format_date due)\<rparr>)), s2)"
    using find_by_td_first[OF f1 cd, of clk True] by (simp add: w_def s2_def)
  have pre: "?upd \<noteq> [] \<and> list_all (\<lambda>(k, v). modelled_key k) ?upd
             \<and> list_all (\<lambda>(k, v). sql_target k \<noteq> NoColumn) ?upd \<and> \<not> td_null ?upd"
    by (simp add: modelled_key_def comments_key td_null_def)
  have aff: "length (filter (\<lambda>r. td_number r = td) (rows s)) \<noteq> 0" using first by simp
  have u: "update_record fiso clk td ?upd s = (Inr True, s2)"
    unfolding update_record_def al Let_def
    using pre aff by (simp add: fb1)
  have "\<exists>q rest1. filter (\<lambda>r. td_number r = td) (rows s2) = q # rest1
          \<and> comments q = Some ?c \<and> end_period q = end_period r0"
  proof (cases w)
    case True
    let ?h = "heal_row clk (format_date due)"
    have tdh: "\<And>r. td_number (?h (?V r)) = td_number r" by (simp add: heal_row_def V)
    have "rows s2 = map (\<lambda>r. if td_number r = td then ?h (?V r) else r) (rows s)"
      using True by (simp add: s2_def write_due_def tdV)
    then have "filter (\<lambda>r. td_number r = td) (rows s2)
                 = ?h (?V r0) # map (\<lambda>r. ?h (?V r)) rest"
      using filter_td_map[of "\<lambda>r. ?h (?V r)" td "rows s", OF tdh] first by simp
    moreover have "comments (?h (?V r0)) = Some ?c \<and> end_period (?h (?V r0)) = end_period r0"
      by (simp add: heal_row_def V)
    ultimately show ?thesis by blast
  next
    case False
    then have "filter (\<lambda>r. td_number r = td) (rows s2) = ?V r0 # map ?V rest"
      using f1 by (simp add: s2_def)
    moreover have "comments (?V r0) = Some ?c \<and> end_period (?V r0) = end_period r0"
      by (simp add: V)
    ultimately show ?thesis by blast
  qed
  then obtain q rest1 where
    "filter (\<lambda>r. td_number r = td) (rows s2) = q # rest1"
    "comments q = Some ?c" "end_period q = end_period r0" by blast
  moreover have "add_comment fiso clk td note s = (Inr True, s2)" using u ac by simp
  ultimately show ?thesis by blast
qed

subsection \<open>Identifiers assigned by add\_record\<close>

text \<open>
  C4. \<open>add_record\<close> takes the greatest existing identifier in text order, not the
  greatest number: once TD999 and TD1000 both exist, "TD999" is the greatest text,
  so a record created without an identifier is given TD1000 again instead of TD1001.
\<close>

theorem add_record_repeats_identifier:
  "fst (add_record no_iso ex_clock empty_record
          \<lparr>rows = [ex_row 1 ''TD999'' None (Some []), ex_row 2 ''TD1000'' None (Some [])],
           seq = 2\<rparr>)
   = Inr ''TD1000''"
  by code_simp

subsection \<open>Versions under update\_record\<close>




subsection \<open>Which rows update\_record changes\<close>

text \<open>
  C3. The claim asks for the first matching row only, as the sibling store documents
  its \<open>update_record\<close> ("first match"). The UPDATE statement of this store is keyed
  by td\_number alone, so with two rows sharing X1 a single call changes both of
  them: each gets the new status, a new updated\_at and a new version.
\<close>

theorem update_record_changes_both_rows:
  "update_record no_iso ex_clock ''X1'' [(''status'', Some ''Released'')] ex_pair
   = (Inr True,
      \<lparr>rows = [(ex_row 1 ''X1'' (Some ''2025-01-01'') (Some ''2025-01-31''))
                 \<lparr>status := Some ''Released'',
                   updated_at := Some ''2025-06-01T10:00:00'', version := 2\<rparr>,
               (ex_row 2 ''X1'' (Some ''2025-01-01'') (Some ''2025-01-31''))
                 \<lparr>status := Some ''Released'',
                   updated_at := Some ''2025-06-01T10:00:00'', version := 2\<rparr>],
       seq = 2\<rparr>)"
  by code_simp

subsection \<open>The healing write of a read\<close>

text \<open>
  C10. When a persisting read derives a due date from the end\_period of the row it
  reads and the row stores another value, the write that follows is keyed by
  td\_number: every row of the table carrying that identifier gets the derived due
  date, a new updated\_at and its version plus one, whatever its own end\_period is,
  and no other row changes.
\<close>

theorem healing_write_hits_every_duplicate:
  assumes "compute_due fiso (end_period r) = Inr (Some d)"
      and "due_date r \<noteq> Some (isoformat d)"
  shows "row_to_record fiso clk True r s =
           (Inr (r\<lparr>due_date := Some (isoformat d)\<rparr>),
            s\<lparr>rows := map (\<lambda>q. if td_number q = td_number r
                                 then q\<lparr>due_date := Some (isoformat d),
                                        updated_at := Some (now_iso clk),
                                        version := version q + 1\<rparr>
                                 else q) (rows s)\<rparr>)"
  using assms
  by (simp add: row_to_record_Inr format_date_def isoformat_nonempty write_due_def heal_row_def)

theorem healing_write_hits_every_duplicate_witness:
  "compute_due no_iso (end_period (ex_row 1 ''X1'' (Some ''2025-01-01'') (Some ''2025-01-15'')))
     = Inr (Some (2025, 1, 31))
   \<and> due_date (ex_row 1 ''X1'' (Some ''2025-01-01'') (Some ''2025-01-15''))
       \<noteq> Some (isoformat (2025, 1, 31))
   \<and> rows (snd (row_to_record no_iso ex_clock True
             (ex_row 1 ''X1'' (Some ''2025-01-01'') (Some ''2025-01-15'')) ex_dups))
     = [(ex_row 1 ''X1'' (Some ''2025-01-01'') (Some ''2025-01-31''))
          \<lparr>updated_at := Some ''2025-06-01T10:00:00'', version := 2\<rparr>,
        (ex_row 2 ''X1'' (Some ''2026-06-30'') (Some ''2025-01-31''))
          \<lparr>updated_at := Some ''2025-06-01T10:00:00'', version := 2\<rparr>,
        ex_row 3 ''Y2'' (Some ''2025-03-01'') (Some ''2025-03-31'')]"
proof -
  have c: "compute_due no_iso
             (end_period (ex_row 1 ''X1'' (Some ''2025-01-01'') (Some ''2025-01-15'')))
           = Inr (Some (2025, 1, 31))"
    by code_simp
  have d: "due_date (ex_row 1 ''X1'' (Some ''2025-01-01'') (Some ''2025-01-15''))
           \<noteq> Some (isoformat (2025, 1, 31))"
    by code_simp
  have e: "map (\<lambda>q. if td_number q = td_number (ex_row 1 ''X1'' (Some ''2025-01-01'') (Some ''2025-01-15''))
                     then q\<lparr>due_date := Some (isoformat (2025, 1, 31)),
                            updated_at := Some (now_iso ex_clock),
                            version := version q + 1\<rparr>
                     else q) (rows ex_dups)
     = [(ex_row 1 ''X1'' (Some ''2025-01-01'') (Some ''2025-01-31''))
          \<lparr>updated_at := Some ''2025-06-01T10:00:00'', version := 2\<rparr>,
        (ex_row 2 ''X1'' (Some ''2026-06-30'') (Some ''2025-01-31''))
          \<lparr>updated_at := Some ''2025-06-01T10:00:00'', version := 2\<rparr>,
        ex_row 3 ''Y2'' (Some ''2025-03-01'') (Some ''2025-03-31'')]"
    by code_simp
  show ?thesis
    using c d e healing_write_hits_every_duplicate [OF c d, of ex_clock ex_dups] by simp
qed

subsection \<open>Duplicate identifiers\<close>

text \<open>
  C5. Two records with the same non-empty identifier, not yet in the table, are both
  inserted (the inputs are such that the due date of each can be derived). The rows
  created carry the next two ids, the identifier, the fields of the two records, the
  derived due dates and version 1. \<open>find_all_by_td\<close> then returns exactly these two
  rows, the one inserted first before the other, and leaves the table alone;
  \<open>delete_record\<close> then removes both and returns true. In every table
  \<open>delete_record\<close> returns true exactly when a row carries the identifier, and
  afterwards no row carries it.
\<close>

theorem duplicates_allowed:
  assumes td: "td \<noteq> []"
      and r1: "rec1 ''td_number'' = Some td" and r2: "rec2 ''td_number'' = Some td"
      and d1: "compute_due fiso (rec1 ''end_period'') = Inr due1"
      and d2: "compute_due fiso (rec2 ''end_period'') = Inr due2"
      and fresh: "\<forall>r\<in>set (rows s). td_number r \<noteq> td"
  shows "let a = \<lparr>row_id = Suc (seq s), td_number = td,
                  psur_number = rec1 ''psur_number'', type_col = rec1 ''type'',
                  product_name = rec1 ''product_name'', catalog_number = rec1 ''catalog_number'',
                  writer = rec1 ''writer'', email = rec1 ''email'',
                  start_period = rec1 ''start_period'', end_period = rec1 ''end_period'',
                  frequency = rec1 ''frequency'', due_date = Some (format_date due1),
                  status = rec1 ''status'', canada_needed = rec1 ''canada_needed'',
                  canada_status = rec1 ''canada_status'', comments = rec1 ''comments'',
                  class_col = rec1 ''class'',
                  created_at = Some (current_timestamp c1),
                  updated_at = Some (current_timestamp c1), version = 1\<rparr>;
             b = \<lparr>row_id = Suc (Suc (seq s)), td_number = td,
                  psur_number = rec2 ''psur_number'', type_col = rec2 ''type'',
                  product_name = rec2 ''product_name'', catalog_number = rec2 ''catalog_number'',
                  writer = rec2 ''writer'', email = rec2 ''email'',
                  start_period = rec2 ''start_period'', end_period = rec2 ''end_period'',
                  frequency = rec2 ''frequency'', due_date = Some (format_date due2),
                  status = rec2 ''status'', canada_needed = rec2 ''canada_needed'',
                  canada_status = rec2 ''canada_status'', comments = rec2 ''comments'',
                  class_col = rec2 ''class'',
                  created_at = Some (current_timestamp c2),
                  updated_at = Some (current_timestamp c2), version = 1\<rparr>;
             s1 = s\<lparr>rows := rows s @ [a], seq := Suc (seq s)\<rparr>;
             s2 = s\<lparr>rows := rows s @ [a, b], seq := Suc (Suc (seq s))\<rparr>
         in add_record fiso c1 rec1 s = (Inr td, s1)
          \<and> add_record fiso c2 rec2 s1 = (Inr td, s2)
          \<and> find_all_by_td fiso c3 td persist s2 = (Inr [a, b], s2)
          \<and> row_id a < row_id b
          \<and> delete_record td s2 = (True, s2\<lparr>rows := rows s\<rparr>)
          \<and> (\<forall>t u. fst (delete_record t u) = (\<exists>r\<in>set (rows u). td_number r = t)
                   \<and> (\<forall>r\<in>set (rows (snd (delete_record t u))). td_number r \<noteq> t))"
proof -
  let ?a = "inserted_row c1 (Suc (seq s)) td rec1 due1"
  let ?b = "inserted_row c2 (Suc (Suc (seq s))) td rec2 due2"
  let ?s1 = "s\<lparr>rows := rows s @ [?a], seq := Suc (seq s)\<rparr>"
  let ?s2 = "s\<lparr>rows := rows s @ [?a, ?b], seq := Suc (Suc (seq s))\<rparr>"
  have p1: "add_record fiso c1 rec1 s = (Inr td, ?s1)"
    by (rule add_record_given_td[where rcd = rec1, OF r1 td d1])
  have p2: "add_record fiso c2 rec2 ?s1 = (Inr td, ?s2)"
    using add_record_given_td[where rcd = rec2, OF r2 td d2, of c2 ?s1] by simp
  have tda: "td_number ?a = td" and tdb: "td_number ?b = td"
    by (simp_all add: inserted_row_def)
  have f0: "filter (\<lambda>r. td_number r = td) (rows s) = []"
    using fresh by (simp add: filter_empty_conv)
  have f2: "filter (\<lambda>r. td_number r = td) (rows ?s2) = [?a, ?b]"
    using f0 tda tdb by simp
  have p3: "find_all_by_td fiso c3 td persist ?s2 = (Inr [?a, ?b], ?s2)"
    unfolding find_all_by_td_def f2
    by (simp add: inserted_row_reads_back[where rcd = rec1, OF d1]
                  inserted_row_reads_back[where rcd = rec2, OF d2])
  have g0: "filter (\<lambda>r. td_number r \<noteq> td) (rows s) = rows s"
    using fresh by (simp add: filter_id_conv)
  have p4: "delete_record td ?s2 = (True, ?s2\<lparr>rows := rows s\<rparr>)"
    using f0 g0 tda tdb by (simp add: delete_record_def Let_def)
  have p5: "row_id ?a < row_id ?b" by (simp add: inserted_row_def)
  have p6: "\<forall>t u. fst (delete_record t u) = (\<exists>r\<in>set (rows u). td_number r = t)
                   \<and> (\<forall>r\<in>set (rows (snd (delete_record t u))). td_number r \<noteq> t)"
    using delete_record_iff delete_record_removes_all by blast
  have ea: "\<lparr>row_id = Suc (seq s), td_number = td,
                  psur_number = rec1 ''psur_number'', type_col = rec1 ''type'',
                  product_name = rec1 ''product_name'', catalog_number = rec1 ''catalog_number'',
                  writer = rec1 ''writer'', email = rec1 ''email'',
                  start_period = rec1 ''start_period'', end_period = rec1 ''end_period'',
                  frequency = rec1 ''frequency'', due_date = Some (format_date due1),
                  status = rec1 ''status'', canada_needed = rec1 ''canada_needed'',
                  canada_status = rec1 ''canada_status'', comments = rec1 ''comments'',
                  class_col = rec1 ''class'',
                  created_at = Some (current_timestamp c1),
                  updated_at = Some (current_timestamp c1), version = 1\<rparr> = ?a"
    by (simp add: inserted_row_def)
  have eb: "\<lparr>row_id = Suc (Suc (seq s)), td_number = td,
                  psur_number = rec2 ''psur_number'', type_col = rec2 ''type'',
                  product_name = rec2 ''product_name'', catalog_number = rec2 ''catalog_number'',
                  writer = rec2 ''writer'', email = rec2 ''email'',
                  start_period = rec2 ''start_period'', end_period = rec2 ''end_period'',
                  frequency = rec2 ''frequency'', due_date = Some (format_date due2),
                  status = rec2 ''status'', canada_needed = rec2 ''canada_needed'',
                  canada_status = rec2 ''canada_status'', comments = rec2 ''comments'',
                  class_col = rec2 ''class'',
                  created_at = Some (current_timestamp c2),
                  updated_at = Some (current_timestamp c2), version = 1\<rparr> = ?b"
    by (simp add: inserted_row_def)
  show ?thesis
    unfolding Let_def ea eb
    using p1 p2 p3 p4 p5 p6 by blast
qed

theorem duplicates_allowed_witness:
  "(let a = (ex_row 4 ''TD888'' (Some ''2025-01-01'') (Some ''2025-01-31''))
              \<lparr>writer := Some ''Alice'', created_at := Some ''2025-06-01 08:00:00'',
                updated_at := Some ''2025-06-01 08:00:00''\<rparr>;
        b = (ex_row 5 ''TD888'' None (Some []))
              \<lparr>writer := Some ''Bob'', created_at := Some ''2025-06-01 08:05:00'',
                updated_at := Some ''2025-06-01 08:05:00''\<rparr>;
        s2 = ex_dups\<lparr>rows := rows ex_dups @ [a, b], seq := 5\<rparr>
    in add_record no_iso ex_clock ex_alice ex_dups
         = (Inr ''TD888'', ex_dups\<lparr>rows := rows ex_dups @ [a], seq := 4\<rparr>)
     \<and> add_record no_iso ex_clock2 ex_bob (ex_dups\<lparr>rows := rows ex_dups @ [a], seq := 4\<rparr>)
         = (Inr ''TD888'', s2)
     \<and> find_all_by_td no_iso ex_clock ''TD888'' True s2 = (Inr [a, b], s2)
     \<and> delete_record ''TD888'' s2 = (True, s2\<lparr>rows := rows ex_dups\<rparr>))"
proof -
  have td: "''TD888'' \<noteq> []" by simp
  have r1: "ex_alice ''td_number'' = Some ''TD888''" by (simp add: ex_alice_def)
  have r2: "ex_bob ''td_number'' = Some ''TD888''" by (simp add: ex_bob_def)
  have d1: "compute_due no_iso (ex_alice ''end_period'') = Inr (Some (2025, 1, 31))" by code_simp
  have d2: "compute_due no_iso (ex_bob ''end_period'') = Inr None" by code_simp
  have fresh: "\<forall>r\<in>set (rows ex_dups). td_number r \<noteq> ''TD888''" by code_simp
  have sq: "seq ex_dups = 3" by (simp add: ex_dups_def)
  have f1: "format_date (Some (2025, 1, 31)) = ''2025-01-31''" by code_simp
  have f2: "format_date None = []" by code_simp
  note T = duplicates_allowed [where ?rec1.0 = ex_alice and ?rec2.0 = ex_bob,
             OF td r1 r2 d1 d2 fresh, of ex_clock ex_clock2 ex_clock True]
  show ?thesis
    using T unfolding Let_def
    by (simp add: sq f1 f2 numeral_eq_Suc ex_alice_def ex_bob_def ex_row_def ex_clock_def ex_clock2_def)
qed

subsection \<open>Notes are appended\<close>

text \<open>
  C9. Let a row carry the identifier and let the end\_period of the first such row
  derive a due date without overflow. Then two calls of \<open>add_comment\<close> both return
  true, and the notes of the first row carrying the identifier are the earlier notes,
  the first stamped note and the second stamped note, in this order, one per line.
  And an \<open>update_record\<close> whose field map has no key that denotes the column
  \<open>comments\<close>, in any spelling, leaves the notes of every row as they were,
  whatever it returns (the keys being single column names other than the primary key).
\<close>

theorem add_comment_appends:
  assumes first: "filter (\<lambda>r. td_number r = td) (rows s) = r0 # rest"
      and rng: "compute_due fiso (end_period r0) = Inr due"
  shows "(\<exists>s1 s2 q rest2.
            add_comment fiso c1 td note1 s = (Inr True, s1)
          \<and> add_comment fiso c2 td note2 s1 = (Inr True, s2)
          \<and> filter (\<lambda>r. td_number r = td) (rows s2) = q # rest2
          \<and> comments q = Some (appended (comments r0) (stamp c1 note1)
                                 @ [char_of (10 :: nat)] @ stamp c2 note2))
       \<and> (keys_modelled updates
            \<and> (\<forall>(k, v)\<in>set updates. sql_target k \<noteq> Column ''comments'')
            \<and> update_record fiso clk tdu updates su = (x, su')
          \<longrightarrow> map comments (rows su') = map comments (rows su))"
proof -
  from add_comment_step[OF first rng, of c1 note1]
  obtain s1 q1 rest1 where
    a1: "add_comment fiso c1 td note1 s = (Inr True, s1)"
    and f1: "filter (\<lambda>r. td_number r = td) (rows s1) = q1 # rest1"
    and c1: "comments q1 = Some (appended (comments r0) (stamp c1 note1))"
    and e1: "end_period q1 = end_period r0"
    by blast
  have rng1: "compute_due fiso (end_period q1) = Inr due" using rng e1 by simp
  from add_comment_step[OF f1 rng1, of c2 note2]
  obtain s2 q2 rest2 where
    a2: "add_comment fiso c2 td note2 s1 = (Inr True, s2)"
    and f2: "filter (\<lambda>r. td_number r = td) (rows s2) = q2 # rest2"
    and c2: "comments q2 = Some (appended (comments q1) (stamp c2 note2))"
    by blast
  have ne: "appended (comments r0) (stamp c1 note1) \<noteq> []"
    by (rule appended_nonempty[OF stamp_nonempty])
  have "comments q2 = Some (appended (comments r0) (stamp c1 note1)
                             @ [char_of (10 :: nat)] @ stamp c2 note2)"
    unfolding c2 c1 using ne by (simp add: appended_def)
  with a1 a2 f2 have A: "\<exists>s1 s2 q rest2.
            add_comment fiso c1 td note1 s = (Inr True, s1)
          \<and> add_comment fiso c2 td note2 s1 = (Inr True, s2)
          \<and> filter (\<lambda>r. td_number r = td) (rows s2) = q # rest2
          \<and> comments q = Some (appended (comments r0) (stamp c1 note1)
                                 @ [char_of (10 :: nat)] @ stamp c2 note2)"
    by blast
  have B: "keys_modelled updates
            \<and> (\<forall>(k, v)\<in>set updates. sql_target k \<noteq> Column ''comments'')
            \<and> update_record fiso clk tdu updates su = (x, su')
          \<longrightarrow> map comments (rows su') = map comments (rows su)"
    using update_record_comments_frame by blast
  from A B show ?thesis by blast
qed

theorem add_comment_appends_witness:
  "filter (\<lambda>r. td_number r = ''Y2'') (rows ex_dups)
     = ex_row 3 ''Y2'' (Some ''2025-03-01'') (Some ''2025-03-31'') # []
   \<and> compute_due no_iso (end_period (ex_row 3 ''Y2'' (Some ''2025-03-01'') (Some ''2025-03-31'')))
       = Inr (Some (2025, 3, 31))
   \<and> (\<exists>s1 s2 q rest2.
            add_comment no_iso ex_clock ''Y2'' ''first'' ex_dups = (Inr True, s1)
          \<and> add_comment no_iso ex_clock2 ''Y2'' ''second'' s1 = (Inr True, s2)
          \<and> filter (\<lambda>r. td_number r = ''Y2'') (rows s2) = q # rest2
          \<and> comments q = Some (''[2025-06-01 10:00] first'' @ [char_of (10 :: nat)]
                                 @ ''[2025-06-01 10:05] second''))
   \<and> map comments (rows (snd (update_record no_iso ex_clock ''X1''
                                  [(''Status'', Some ''Released'')] ex_dups)))
       = map comments (rows ex_dups)"
proof -
  have f: "filter (\<lambda>r. td_number r = ''Y2'') (rows ex_dups)
             = ex_row 3 ''Y2'' (Some ''2025-03-01'') (Some ''2025-03-31'') # []"
    by code_simp
  have c: "compute_due no_iso
             (end_period (ex_row 3 ''Y2'' (Some ''2025-03-01'') (Some ''2025-03-31'')))
           = Inr (Some (2025, 3, 31))"
    by code_simp
  have a: "appended (comments (ex_row 3 ''Y2'' (Some ''2025-03-01'') (Some ''2025-03-31'')))
             (stamp ex_clock ''first'') = ''[2025-06-01 10:00] first''"
    by code_simp
  have b: "stamp ex_clock2 ''second'' = ''[2025-06-01 10:05] second''"
    by code_simp
  have n: "keys_modelled [(''Status'', Some ''Released'')]
           \<and> (\<forall>(k, v)\<in>set [(''Status'', Some ''Released'')]. sql_target k \<noteq> Column ''comments'')"
    by code_simp
  note T = add_comment_appends [OF f c, of ex_clock "''first''" ex_clock2 "''second''"
             "[(''Status'', Some ''Released'')]" ex_clock "''X1''" ex_dups
             "fst (update_record no_iso ex_clock ''X1'' [(''Status'', Some ''Released'')] ex_dups)"
             "snd (update_record no_iso ex_clock ''X1'' [(''Status'', Some ''Released'')] ex_dups)"]
  from T have A: "\<exists>s1 s2 q rest2.
            add_comment no_iso ex_clock ''Y2'' ''first'' ex_dups = (Inr True, s1)
          \<and> add_comment no_iso ex_clock2 ''Y2'' ''second'' s1 = (Inr True, s2)
          \<and> filter (\<lambda>r. td_number r = ''Y2'') (rows s2) = q # rest2
          \<and> comments q = Some (''[2025-06-01 10:00] first'' @ [char_of (10 :: nat)]
                                 @ ''[2025-06-01 10:05] second'')"
    unfolding a b by blast
  from T n have B: "map comments (rows (snd (update_record no_iso ex_clock ''X1''
                                  [(''Status'', Some ''Released'')] ex_dups)))
       = map comments (rows ex_dups)"
    by simp
  from f c A B show ?thesis by blast
qed

end
